theory Spec2Isabelle
  imports Main "HOL-Library.Word" "HOL-Library.Stream"
begin

section \<open>Errors\<close>

text \<open>
  A Go \<open>error\<close> value is modelled by the datatype below; the nil error is \<open>None\<close> of
  \<open>error option\<close>. The first four constructors are the failures of the scanner behind
  \<open>fmt.Fscan\<close> (\<open>EOF\<close> stands for input exhausted before a token, be it \<open>io.EOF\<close> or
  \<open>io.ErrUnexpectedEOF\<close>); \<open>Failure\<close> carries the message of any other error (a file
  system error, a JSON error, an error of the chain client).
\<close>

datatype error =
    EOF
  | ExpectedInteger
  | InvalidSyntax
  | ValueOutOfRange
  | Failure string

fun Error :: "error \<Rightarrow> string" where
  "Error EOF = ''EOF''"
| "Error ExpectedInteger = ''expected integer''"
| "Error InvalidSyntax = ''invalid syntax''"
| "Error ValueOutOfRange = ''value out of range''"
| "Error (Failure m) = m"

section \<open>The offset store (package utils)\<close>

subsection \<open>The storage behind the FileStorage interface\<close>

text \<open>
  \<open>FileStorage\<close> is the interface \<open>Read\<close>, \<open>Write\<close>, \<open>Truncate\<close>, \<open>Seek\<close>; the
  program passes an \<open>os.File\<close>. The model is a regular file: its bytes and the cursor of
  the open handle. Each of the four operations can fail, and the source passes every
  failure on, so the file also says which of them fail: \<open>read_fault\<close>,
  \<open>truncate_fault\<close> and \<open>seek_fault\<close> are the error the call returns (if any; a handle
  opened write-only fails every \<open>Read\<close>, one opened read-only every \<open>Truncate\<close>), and
  \<open>write_room\<close> is the number of bytes the device still accepts (\<open>None\<close>: no limit);
  a write of more bytes is a short write with an error, as \<open>io.Writer\<close> requires.
  \<open>Seek\<close> knows the three standard values of \<open>whence\<close>; the data and hole seeks
  of Linux are not part of the model.
\<close>

record FileStorage =
  content :: string
  pos :: nat
  read_fault :: "error option"
  truncate_fault :: "error option"
  seek_fault :: "error option"
  write_room :: "nat option"

definition Truncate :: "FileStorage \<Rightarrow> int \<Rightarrow> error option \<times> FileStorage" where
  "Truncate f sz =
     (case truncate_fault f of
        Some e \<Rightarrow> (Some e, f)
      | None \<Rightarrow>
          if sz < 0 then (Some (Failure ''invalid argument''), f)
          else (None, f\<lparr>content := take (nat sz) (content f)
                              @ replicate (nat sz - length (content f)) (CHR 0x00)\<rparr>))"

definition Seek :: "FileStorage \<Rightarrow> int \<Rightarrow> int \<Rightarrow> (int \<times> error option) \<times> FileStorage" where
  "Seek f offset whence =
     (case seek_fault f of
        Some e \<Rightarrow> ((0, Some e), f)
      | None \<Rightarrow>
          if whence \<noteq> 0 \<and> whence \<noteq> 1 \<and> whence \<noteq> 2 then ((0, Some (Failure ''invalid argument'')), f)
          else
            let base = (if whence = 0 then 0
                        else if whence = 1 then int (pos f)
                        else int (length (content f)));
                ret = base + offset
            in if ret < 0 then ((0, Some (Failure ''invalid argument'')), f)
               else ((ret, None), f\<lparr>pos := nat ret\<rparr>))"

definition write_at :: "string \<Rightarrow> nat \<Rightarrow> string \<Rightarrow> string" where
  \<comment> \<open>the bytes of a file after \<open>b\<close> is written at position \<open>p\<close>: a gap is zero-filled\<close>
  "write_at c p b =
     (let c' = c @ replicate (p - length c) (CHR 0x00)
      in take p c' @ b @ drop (p + length b) c')"

definition Write :: "FileStorage \<Rightarrow> string \<Rightarrow> (nat \<times> error option) \<times> FileStorage" where
  "Write f b =
     (case write_room f of
        None \<Rightarrow>
          ((length b, None), f\<lparr>content := write_at (content f) (pos f) b, pos := pos f + length b\<rparr>)
      | Some k \<Rightarrow>
          if length b \<le> k then
            ((length b, None),
             f\<lparr>content := write_at (content f) (pos f) b, pos := pos f + length b,
               write_room := Some (k - length b)\<rparr>)
          else
            ((k, Some (Failure ''no space left on device'')),
             f\<lparr>content := write_at (content f) (pos f) (take k b), pos := pos f + k,
               write_room := Some 0\<rparr>))"

subsection \<open>strconv.Itoa\<close>

definition digit_char :: "nat \<Rightarrow> char" where
  \<comment> \<open>the lookup in the digit table of \<open>strconv\<close>, for \<open>d < 10\<close>\<close>
  "digit_char d = ''0123456789'' ! d"

fun decimal :: "nat \<Rightarrow> string" where
  "decimal n = (if n < 10 then [digit_char n] else decimal (n div 10) @ [digit_char (n mod 10)])"

declare decimal.simps [simp del]

definition Itoa :: "int \<Rightarrow> string" where
  "Itoa i = (if i < 0 then CHR ''-'' # decimal (nat (- i)) else decimal (nat i))"

subsection \<open>fmt.Fscan into a uint64\<close>

text \<open>
  \<open>Fscan\<close> with a \<open>*uint64\<close> operand skips leading white space (newlines count as
  space), fails with an end-of-input error when nothing is left, reads an optional base
  prefix (\<open>0b\<close>, \<open>0o\<close>, \<open>0x\<close>, or a leading \<open>0\<close> for octal), takes the longest run of
  digits of that base, and converts it with \<open>strconv.ParseUint\<close> at 64 bits. No sign is
  accepted. The input is the bytes of the file from the cursor on. Digit separators
  (\<open>_\<close>) and white space outside ASCII are not part of the model.
\<close>

definition is_space :: "char \<Rightarrow> bool" where
  "is_space c = (c \<in> set [CHR '' '', CHR 0x09, CHR 0x0A, CHR 0x0B, CHR 0x0C, CHR 0x0D])"

definition digit_val :: "char \<Rightarrow> nat" where
  "digit_val c =
     (let k = (of_char c :: nat)
      in if 48 \<le> k \<and> k \<le> 57 then k - 48
         else if 97 \<le> k \<and> k \<le> 102 then k - 87
         else if 65 \<le> k \<and> k \<le> 70 then k - 55
         else 255)"

definition is_digit :: "nat \<Rightarrow> char \<Rightarrow> bool" where
  "is_digit base c = (digit_val c < base)"

definition ParseUint :: "nat \<Rightarrow> string \<Rightarrow> error + 64 word" where
  \<comment> \<open>\<open>tok\<close> holds digits of \<open>base\<close> only; the value must fit 64 bits\<close>
  "ParseUint base tok =
     (if tok = [] then Inl InvalidSyntax
      else let n = foldl (\<lambda>a c. a * base + digit_val c) 0 tok
           in if n < 2 ^ 64 then Inr (of_nat n) else Inl ValueOutOfRange)"

definition scanUint :: "string \<Rightarrow> error + 64 word" where
  "scanUint input =
     (case dropWhile is_space input of
        [] \<Rightarrow> Inl EOF
      | c # rest \<Rightarrow>
          if c = CHR ''0'' then
            (case rest of
               [] \<Rightarrow> Inr 0
             | p # ds \<Rightarrow>
                 if p = CHR ''b'' \<or> p = CHR ''B'' then ParseUint 2 (takeWhile (is_digit 2) ds)
                 else if p = CHR ''o'' \<or> p = CHR ''O'' then ParseUint 8 (takeWhile (is_digit 8) ds)
                 else if p = CHR ''x'' \<or> p = CHR ''X'' then ParseUint 16 (takeWhile (is_digit 16) ds)
                 else ParseUint 8 (CHR ''0'' # takeWhile (is_digit 8) rest))
          else if is_digit 10 c then ParseUint 10 (takeWhile (is_digit 10) (c # rest))
          else Inl ExpectedInteger)"

subsection \<open>ReadOffset and WriteOffset\<close>

text \<open>
  \<open>ReadOffset\<close> scans from the cursor of the handle it is given, and returns the zero
  value of \<open>offset\<close> with the error when the scan fails. The scanner reads the storage
  byte by byte and passes on an error of \<open>Read\<close> other than the end of the input, so on
  a storage whose \<open>Read\<close> fails \<open>ReadOffset\<close> returns that error. How far the scan
  moves the cursor is left out: every write seeks to the start first. The debug log lines
  of the two functions are left out as well.

  \<open>WriteOffset\<close> converts with \<open>strconv.Itoa(int(offset))\<close>; \<open>int\<close> is the 64-bit signed
  integer of the platform the program is built for, so the conversion is \<open>sint\<close>.
\<close>

definition ReadOffset :: "FileStorage \<Rightarrow> 64 word \<times> error option" where
  "ReadOffset r =
     (case read_fault r of
        Some err \<Rightarrow> (0, Some err)
      | None \<Rightarrow>
          (case scanUint (drop (pos r) (content r)) of
             Inl err \<Rightarrow> (0, Some err)
           | Inr offset \<Rightarrow> (offset, None)))"

definition WriteOffset :: "FileStorage \<Rightarrow> 64 word \<Rightarrow> error option \<times> FileStorage" where
  "WriteOffset w offset =
     (let bs = Itoa (sint offset) in
      case Truncate w 0 of
        (Some err, w1) \<Rightarrow> (Some err, w1)
      | (None, w1) \<Rightarrow>
          (case Seek w1 0 0 of
             ((_, Some err), w2) \<Rightarrow> (Some err, w2)
           | ((_, None), w2) \<Rightarrow>
               (case Write w2 bs of ((_, err), w3) \<Rightarrow> (err, w3))))"

section \<open>The signing pipeline (package main)\<close>

subsection \<open>Data\<close>

text \<open>
  Values the program only passes on (digests, keys, transactions in their unsigned,
  signed and packed forms, transaction options) are byte strings. \<open>Event\<close> and
  \<open>EventMessage\<close> have the fields of the broker client's structs that the program
  reads.
\<close>

type_synonym Checksum256 = string
type_synonym PublicKey = string
type_synonym PrivateKey = string
type_synonym TxOptions = string
type_synonym SignedTransaction = string
type_synonym PackedTransaction = string
type_synonym TransactionID = string

record Event =
  Sender :: string
  RequestID :: "64 word"
  Data :: string

record EventMessage =
  Offset :: "64 word"
  Events :: "Event list"

record PubKeys =
  Deposit :: PublicKey
  SigniDice :: PublicKey

record BlockChain =
  ChainID :: Checksum256
  CasinoAccountName :: string
  EosPubKeys :: PubKeys
  RSAKey :: PrivateKey

text \<open>
  The collaborators: the JSON decoder, the chain client (\<open>eos.API\<close>, its signer and the
  transaction's \<open>Pack\<close>), and the helpers \<open>rsaSign\<close> and \<open>GetSigndiceTransaction\<close>
  of package main, whose source is not part of the files at hand. Each is a function
  from its arguments to an error or a value. A pointer result is an option, \<open>None\<close> for
  nil: the packed transaction of \<open>GetSigndiceTransaction\<close>, which is passed on as it
  is, and the response of \<open>PushTransaction\<close>, which the callers dereference once the
  error is nil, so that \<open>Inr None\<close> is the result \<open>(nil, nil)\<close>. \<open>Pack\<close> returns both
  a pointer and an error, since \<open>SignQuery\<close> drops the error and uses the pointer.
  The pointers of the application itself (\<open>bcAPI\<close>, the configuration, the RSA key)
  are taken as set, and the collaborators as returning.
\<close>

record API =
  Unmarshal_digest :: "string \<Rightarrow> error + Checksum256"
  Unmarshal_tx :: "string \<Rightarrow> error + SignedTransaction"
  rsaSign :: "Checksum256 \<Rightarrow> PrivateKey \<Rightarrow> error + string"
  FillFromChain :: "error + TxOptions"
  GetSigndiceTransaction ::
    "string \<Rightarrow> string \<Rightarrow> 64 word \<Rightarrow> string \<Rightarrow> PublicKey \<Rightarrow> TxOptions
      \<Rightarrow> error + PackedTransaction option"
  Sign :: "SignedTransaction \<Rightarrow> Checksum256 \<Rightarrow> PublicKey \<Rightarrow> error + SignedTransaction"
  Pack :: "SignedTransaction \<Rightarrow> PackedTransaction option \<times> error option"
  PushTransaction :: "PackedTransaction option \<Rightarrow> error + TransactionID option"

record 'w App =
  bcAPI :: API
  OffsetHandler :: 'w
  BlockChain :: BlockChain

subsection \<open>Observable effects\<close>

text \<open>
  One constructor of \<open>log_line\<close> for each call of the logger in package main, with the
  values it prints. An \<open>effect\<close> is a log line, the launch of a goroutine, or a call
  of a collaborator that leaves the process.
\<close>

datatype log_line =
    Processing_event "Event option"
  | Couldnt_get_digest error
  | Couldnt_sign error
  | Failed_to_get_blockchain_state error
  | Couldnt_form_transaction error
  | Failed_to_send_transaction error
  | Successfully_sent TransactionID
  | Failed_to_read_events
  | Event_message_with_no_events
  | Processing_events nat
  | Failed_to_write_offset error
  | Called_sign_transaction
  | Failed_to_deserialize error
  | Deposit_key PublicKey
  | Failed_to_sign error
  | Signed_transaction SignedTransaction
  | Failed_to_push error

datatype effect =
    Log log_line
  | Go_processEvent Event
  | Call_writeOffset "64 word"
  | Call_FillFromChain
  | Call_Sign SignedTransaction
  | Call_PushTransaction "PackedTransaction option"

fun offset_writes :: "effect list \<Rightarrow> 64 word list" where
  "offset_writes [] = []"
| "offset_writes (Call_writeOffset v # es) = v # offset_writes es"
| "offset_writes (e # es) = offset_writes es"

fun launched :: "effect list \<Rightarrow> Event list" where
  "launched [] = []"
| "launched (Go_processEvent ev # es) = ev # launched es"
| "launched (e # es) = launched es"

fun is_network_call :: "effect \<Rightarrow> bool" where
  "is_network_call Call_FillFromChain = True"
| "is_network_call (Call_Sign tx) = True"
| "is_network_call (Call_PushTransaction p) = True"
| "is_network_call e = False"

subsection \<open>processEvent\<close>

text \<open>
  A function of package main either returns or panics: it has no \<open>recover\<close>. The
  argument of \<open>processEvent\<close> is a pointer to an event; \<open>event.Data\<close> on a nil pointer
  panics, and so does \<open>result.TransactionID\<close> when \<open>PushTransaction\<close> has returned
  neither an error nor a response.
\<close>

datatype 'a outcome = Returns 'a | Panics


subsection \<open>RunEventProcessor\<close>

text \<open>
  Each round of the loop is one \<open>select\<close>: either \<open>ctx.Done()\<close> is taken, or a receive
  from the channel of event messages, which yields a message or, on a closed channel,
  \<open>ok = false\<close> (\<open>None\<close>). Which case is taken is the runtime's choice, so the loop is a
  function of the stream of outcomes. \<open>break\<close> inside \<open>select\<close> leaves the \<open>select\<close>,
  not the \<open>for\<close>: the loop goes on with the next round. The loop may run forever, so
  it is a partial function, and \<open>None\<close> means that it does not return.

  \<open>writeOffset\<close> of package main (called on an \<open>io.Writer\<close>) is not among the files at
  hand; it is the parameter \<open>wo\<close>, from the handler and the offset to the error and the
  handler afterwards. Every \<open>go app.processEvent(event)\<close> is recorded as a launch: the
  goroutine runs on its own and the loop does not wait for it. The messages on the
  channel and the events in them are taken as pointers that are not nil, so a launch with
  \<open>event\<close> stands for \<open>processEvent app (Some event)\<close>.
\<close>

datatype select = CtxDone | Receive "EventMessage option"

definition receive_case ::
    "('w \<Rightarrow> 64 word \<Rightarrow> error option \<times> 'w) \<Rightarrow> EventMessage option \<Rightarrow> 'w App \<times> effect list
      \<Rightarrow> 'w App \<times> effect list" where
  "receive_case wo r st =
     (case st of (app, tr) \<Rightarrow>
      (case r of
         None \<Rightarrow> (app, tr @ [Log Failed_to_read_events])
       | Some eventMessage \<Rightarrow>
           if length (Events eventMessage) = 0 then (app, tr @ [Log Event_message_with_no_events])
           else
             let tr1 = tr @ [Log (Processing_events (length (Events eventMessage)))]
                          @ map Go_processEvent (Events eventMessage);
                 offset = Offset eventMessage + 1
             in (case wo (OffsetHandler app) offset of
                   (None, h) \<Rightarrow> (app\<lparr>OffsetHandler := h\<rparr>, tr1 @ [Call_writeOffset offset])
                 | (Some err, h) \<Rightarrow>
                     (app\<lparr>OffsetHandler := h\<rparr>,
                      tr1 @ [Call_writeOffset offset, Log (Failed_to_write_offset err)]))))"

partial_function (option) RunEventProcessor ::
    "('w \<Rightarrow> 64 word \<Rightarrow> error option \<times> 'w) \<Rightarrow> select stream \<Rightarrow> 'w App \<times> effect list
      \<Rightarrow> ('w App \<times> effect list) option" where
  "RunEventProcessor wo env st =
     (case shd env of
        CtxDone \<Rightarrow> Some st
      | Receive r \<Rightarrow> RunEventProcessor wo (stl env) (receive_case wo r st))"

subsection \<open>The HTTP handlers\<close>

text \<open>
  A request is what \<open>ioutil.ReadAll(req.Body)\<close> yields: the bytes read and the error.
  A response is the status code, the content type and the JSON object handed to
  \<open>json.Marshal\<close> (a list of fields). A failure to write the response is only logged
  by the source and is not part of the model. \<open>SignQuery\<close> dereferences the response
  of \<open>PushTransaction\<close> as \<open>processEvent\<close> does, and panics on \<open>(nil, nil)\<close> before it
  has responded.
\<close>

type_synonym JSONResponse = "(string \<times> string) list"

record Request =
  Body :: "string \<times> error option"

record Response =
  code :: nat
  content_type :: string
  payload :: JSONResponse

definition respondWithJSON :: "nat \<Rightarrow> JSONResponse \<Rightarrow> Response" where
  "respondWithJSON c p = \<lparr>code = c, content_type = ''application/json'', payload = p\<rparr>"

definition respondWithError :: "nat \<Rightarrow> string \<Rightarrow> Response" where
  "respondWithError c message = respondWithJSON c [(''error'', message)]"

definition PingQuery :: "'w App \<Rightarrow> Request \<Rightarrow> Response" where
  "PingQuery app req = respondWithJSON 200 [(''result'', ''pong'')]"

definition SignQuery :: "'w App \<Rightarrow> Request \<Rightarrow> Response outcome \<times> effect list" where
  "SignQuery app req =
     (let l0 = [Log Called_sign_transaction];
          rawTransaction = fst (Body req)
      in case Unmarshal_tx (bcAPI app) rawTransaction of
        Inl err \<Rightarrow>
          (Returns (respondWithError 400 ''failed to deserialize transaction''),
           l0 @ [Log (Failed_to_deserialize err)])
      | Inr tx \<Rightarrow>
      (let l1 = l0 @ [Log (Deposit_key (Deposit (EosPubKeys (BlockChain app)))), Call_Sign tx] in
       case Sign (bcAPI app) tx (ChainID (BlockChain app)) (Deposit (EosPubKeys (BlockChain app))) of
        Inl signError \<Rightarrow>
          (Returns (respondWithError 500 ''failed to sign transaction''),
           l1 @ [Log (Failed_to_sign signError)])
      | Inr signedTx \<Rightarrow>
      (let packedTrx = fst (Pack (bcAPI app) signedTx);
           l2 = l1 @ [Log (Signed_transaction signedTx), Call_PushTransaction packedTrx]
       in case PushTransaction (bcAPI app) packedTrx of
        Inl sendError \<Rightarrow>
          (Returns (respondWithError 400
             (''failed to send transaction to the blockchain, reason: '' @ Error sendError)),
           l2 @ [Log (Failed_to_push sendError)])
      | Inr None \<Rightarrow> (Panics, l2)
      | Inr (Some TransactionID) \<Rightarrow>
          (Returns (respondWithJSON 200 [(''txid'', TransactionID)]), l2))))"

section \<open>Sample inputs\<close>

text \<open>
  Concrete inputs at which the theorems below are instantiated: a storage that holds the
  stale bytes \<open>12345\<close> and works, the same storage on a device with room for one more
  byte, an event payload and a request body as the program receives them, and
  collaborators. The sample decoders accept the one sample document, as
  \<open>json.Unmarshal\<close> does, and reject every other input; the theorems use them on the
  sample documents and on the empty input only, which \<open>json.Unmarshal\<close> rejects too.
\<close>

definition sample_store :: FileStorage where
  "sample_store =
     \<lparr>content = ''12345'', pos = 5, read_fault = None, truncate_fault = None,
      seek_fault = None, write_room = None\<rparr>"

definition full_store :: FileStorage where
  "full_store = sample_store\<lparr>write_room := Some 1\<rparr>"

definition sample_digest :: Checksum256 where
  "sample_digest = ''e3b0c44298fc1c149afbf4c8996fb92427ae41e4649b934ca495991b7852b855''"

definition sample_payload :: string where
  "sample_payload = ''{\"digest\":\"'' @ sample_digest @ ''\"}''"

definition sample_body :: string where
  "sample_body =
     ''{\"expiration\":\"2020-01-01T00:00:00\",\"ref_block_num\":0,\"ref_block_prefix\":0,''
     @ ''\"max_net_usage_words\":0,\"max_cpu_usage_ms\":0,\"delay_sec\":0,''
     @ ''\"context_free_actions\":[],\"actions\":[],\"transaction_extensions\":[],''
     @ ''\"signatures\":[],\"context_free_data\":[]}''"

definition sample_api :: API where
  "sample_api =
     \<lparr>Unmarshal_digest =
        (\<lambda>s. if s = sample_payload then Inr sample_digest
             else if s = [] then Inl (Failure ''unexpected end of JSON input'')
             else Inl (Failure ''not the sample payload'')),
      Unmarshal_tx =
        (\<lambda>s. if s = sample_body then Inr ''tx''
             else if s = [] then Inl (Failure ''unexpected end of JSON input'')
             else Inl (Failure ''not the sample body'')),
      rsaSign = (\<lambda>d k. Inr ''c2lnbmF0dXJl''),
      FillFromChain = Inr ''opts'',
      GetSigndiceTransaction = (\<lambda>sender casino req sig pk opts. Inr (Some (sender @ '':'' @ sig))),
      Sign = (\<lambda>tx chain pk. Inr (pk @ tx)),
      Pack = (\<lambda>stx. (Some stx, None)),
      PushTransaction =
        (\<lambda>p. case p of None \<Rightarrow> Inl (Failure ''empty transaction'')
                       | Some t \<Rightarrow> Inr (Some (''id:'' @ t)))\<rparr>"

definition sample_chain :: BlockChain where
  "sample_chain =
     \<lparr>ChainID = ''chain'', CasinoAccountName = ''casino'',
      EosPubKeys = \<lparr>Deposit = ''D'', SigniDice = ''S''\<rparr>, RSAKey = ''K''\<rparr>"

definition sample_app :: "FileStorage App" where
  "sample_app = \<lparr>bcAPI = sample_api, OffsetHandler = sample_store, BlockChain = sample_chain\<rparr>"

definition silent_app :: "FileStorage App" where
  \<comment> \<open>the chain client answers a push with neither an error nor a response\<close>
  "silent_app = sample_app\<lparr>bcAPI := sample_api\<lparr>PushTransaction := \<lambda>p. Inr None\<rparr>\<rparr>"

definition event1 :: Event where
  "event1 = \<lparr>Sender = ''alice'', RequestID = 1, Data = sample_payload\<rparr>"

definition event2 :: Event where
  "event2 = \<lparr>Sender = ''bob'', RequestID = 2, Data = []\<rparr>"

section \<open>Decimal digits and the scanner\<close>

lemma digit_cases:
  assumes "d < (10::nat)"
  obtains "d = 0" | "d = 1" | "d = 2" | "d = 3" | "d = 4" | "d = 5" | "d = 6" | "d = 7"
    | "d = 8" | "d = 9"
  using assms by atomize_elim presburger

lemma digit_val_digit_char: "d < 10 \<Longrightarrow> digit_val (digit_char d) = d"
  by (erule digit_cases) (simp_all add: digit_val_def digit_char_def)

lemma is_digit_digit_char: "d < 10 \<Longrightarrow> is_digit 10 (digit_char d)"
  by (simp add: is_digit_def digit_val_digit_char)

lemma not_space_digit: "is_digit 10 c \<Longrightarrow> \<not> is_space c"
  by (auto simp: is_digit_def digit_val_def is_space_def Let_def split: if_splits)

lemma digit_char_zero: "d < 10 \<Longrightarrow> digit_char d = CHR ''0'' \<Longrightarrow> d = 0"
  by (erule digit_cases) (simp_all add: digit_char_def)

lemma decimal_not_Nil: "decimal n \<noteq> []"
  by (subst decimal.simps) simp

lemma decimal_0: "decimal 0 = ''0''"
  by (subst decimal.simps) (simp add: digit_char_def)

lemma decimal_digits: "c \<in> set (decimal n) \<Longrightarrow> is_digit 10 c"
proof (induction n arbitrary: c rule: decimal.induct)
  case (1 n)
  show ?case
  proof (cases "n < 10")
    case True
    with "1.prems" show ?thesis
      by (subst (asm) decimal.simps) (simp add: is_digit_digit_char)
  next
    case False
    with "1.prems" have "c \<in> set (decimal (n div 10)) \<or> c = digit_char (n mod 10)"
      by (subst (asm) decimal.simps) auto
    with False "1.IH" show ?thesis
      by (auto simp: is_digit_digit_char)
  qed
qed

lemma decimal_value: "foldl (\<lambda>a c. a * 10 + digit_val c) 0 (decimal n) = n"
proof (induction n rule: decimal.induct)
  case (1 n)
  show ?case
  proof (cases "n < 10")
    case True
    then show ?thesis
      by (subst decimal.simps) (simp add: digit_val_digit_char)
  next
    case False
    with "1.IH" show ?thesis
      by (subst decimal.simps) (simp add: digit_val_digit_char)
  qed
qed

lemma decimal_hd: "0 < n \<Longrightarrow> hd (decimal n) \<noteq> CHR ''0''"
proof (induction n rule: decimal.induct)
  case (1 n)
  show ?case
  proof (cases "n < 10")
    case True
    with "1.prems" show ?thesis
      by (subst decimal.simps) (auto dest: digit_char_zero)
  next
    case False
    then have "0 < n div 10" by simp
    with False "1.IH" have "hd (decimal (n div 10)) \<noteq> CHR ''0''" by simp
    with False show ?thesis
      by (subst decimal.simps) (simp add: decimal_not_Nil)
  qed
qed

lemma scanUint_decimal:
  assumes "n < 2 ^ 64"
  shows "scanUint (decimal n) = Inr (of_nat n)"
proof (cases "n = 0")
  case True
  then show ?thesis by (simp add: decimal_0 scanUint_def is_space_def)
next
  case False
  obtain c cs where d: "decimal n = c # cs"
    using decimal_not_Nil [of n] by (cases "decimal n") auto
  have all: "\<forall>x \<in> set (c # cs). is_digit 10 x"
    using decimal_digits [of _ n] d by auto
  have c0: "c \<noteq> CHR ''0''"
    using decimal_hd [of n] False d by simp
  have tw: "takeWhile (is_digit 10) (c # cs) = c # cs"
    using all by (simp only: takeWhile_eq_all_conv)
  have dw: "dropWhile is_space (c # cs) = c # cs"
    using all not_space_digit by simp
  have val: "foldl (\<lambda>a c. a * 10 + digit_val c) 0 (c # cs) = n"
    using decimal_value [of n] d by simp
  have "scanUint (c # cs) = ParseUint 10 (takeWhile (is_digit 10) (c # cs))"
    unfolding scanUint_def dw using c0 all by (simp del: takeWhile.simps)
  also have "\<dots> = ParseUint 10 (c # cs)"
    by (simp only: tw)
  also have "\<dots> = Inr (of_nat n)"
    unfolding ParseUint_def val using assms by simp
  finally show ?thesis using d by simp
qed

lemma scanUint_Nil: "scanUint [] = Inl EOF"
  by (simp add: scanUint_def)

lemma sint_small:
  assumes "(v :: 64 word) < 2 ^ 63"
  shows "sint v = uint v"
proof -
  from assms have "uint v < 2 ^ 63" by (simp add: word_less_def)
  moreover have "- (2 ^ 63) \<le> uint v"
    by (rule order_trans [of _ 0]) simp_all
  ultimately have "signed_take_bit 63 (uint v) = uint v"
    by (rule signed_take_bit_int_eq_self [rotated])
  then show ?thesis by (simp add: sint_uint)
qed

lemma Itoa_sint: "(v :: 64 word) < 2 ^ 63 \<Longrightarrow> Itoa (sint v) = decimal (unat v)"
  by (simp add: sint_small Itoa_def)

lemma scanUint_Itoa:
  assumes "(v :: 64 word) < 2 ^ 63"
  shows "scanUint (Itoa (sint v)) = Inr v"
proof -
  have "unat v < 2 ^ 64" using unsigned_less [of v] by simp
  then show ?thesis using assms by (simp add: Itoa_sint scanUint_decimal)
qed

section \<open>WriteOffset\<close>

lemma write_at_start: "write_at [] 0 b = b"
  by (simp add: write_at_def)

lemma WriteOffset_truncate_fails:
  "truncate_fault w = Some e \<Longrightarrow> WriteOffset w v = (Some e, w)"
  by (simp add: WriteOffset_def Truncate_def)

lemma WriteOffset_seek_fails:
  "truncate_fault w = None \<Longrightarrow> seek_fault w = Some e \<Longrightarrow>
     WriteOffset w v = (Some e, w\<lparr>content := []\<rparr>)"
  by (simp add: WriteOffset_def Truncate_def Seek_def)

lemma WriteOffset_written:
  assumes "truncate_fault w = None" "seek_fault w = None"
  shows "WriteOffset w v =
     (case write_room w of
        None \<Rightarrow> (None, w\<lparr>content := Itoa (sint v), pos := length (Itoa (sint v))\<rparr>)
      | Some k \<Rightarrow>
          if length (Itoa (sint v)) \<le> k
          then (None, w\<lparr>content := Itoa (sint v), pos := length (Itoa (sint v)),
                         write_room := Some (k - length (Itoa (sint v)))\<rparr>)
          else (Some (Failure ''no space left on device''),
                w\<lparr>content := take k (Itoa (sint v)), pos := k, write_room := Some 0\<rparr>))"
  using assms
  by (simp add: WriteOffset_def Truncate_def Seek_def Write_def write_at_start Let_def
      split: option.splits)

lemma WriteOffset_success:
  assumes "WriteOffset w v = (None, w')"
  shows "content w' = Itoa (sint v) \<and> pos w' = length (Itoa (sint v)) \<and> seek_fault w' = None
       \<and> read_fault w' = read_fault w"
proof (cases "truncate_fault w")
  case (Some e)
  with assms show ?thesis by (simp add: WriteOffset_truncate_fails)
next
  case None
  show ?thesis
  proof (cases "seek_fault w")
    case (Some e)
    with None assms show ?thesis by (simp add: WriteOffset_seek_fails)
  next
    case sk: None
    from assms sk show ?thesis
      unfolding WriteOffset_written [OF None sk]
      by (auto split: option.splits if_splits)
  qed
qed

lemma ReadOffset_read_fails: "read_fault r = Some e \<Longrightarrow> ReadOffset r = (0, Some e)"
  by (simp add: ReadOffset_def)

lemma ReadOffset_at_end:
  "read_fault r = None \<Longrightarrow> pos r = length (content r) \<Longrightarrow> ReadOffset r = (0, Some EOF)"
  by (simp add: ReadOffset_def scanUint_Nil)

lemma Seek_start: "seek_fault r = None \<Longrightarrow> snd (Seek r 0 0) = r\<lparr>pos := 0\<rparr>"
  by (simp add: Seek_def)

lemma ReadOffset_rewound:
  assumes "read_fault r = None" "seek_fault r = None" "scanUint (content r) = Inr v"
  shows "ReadOffset (snd (Seek r 0 0)) = (v, None)"
  using assms by (simp add: ReadOffset_def Seek_def)

text \<open>
  Claim C3, as the code has it. For every offset \<open>v < 2 ^ 63\<close> and every storage on which
  \<open>WriteOffset\<close> returns no error: when the storage can be read, \<open>ReadOffset\<close> on it
  returns \<open>v\<close> once the cursor is back at the start (\<open>Seek(0, 0)\<close>, or the file opened
  again), and through the handle as \<open>WriteOffset\<close> leaves it, the cursor is behind the
  digits and \<open>ReadOffset\<close> returns the end-of-input error; when \<open>Read\<close> fails on the
  storage (a handle opened write-only takes the write and fails the read), \<open>ReadOffset\<close>
  returns the error of \<open>Read\<close> in both cases. The write does not change whether the
  storage can be read.
\<close>

theorem offset_roundtrip:
  assumes "v < 2 ^ 63" and "WriteOffset w v = (None, w')"
  shows "ReadOffset (snd (Seek w' 0 0))
           = (case read_fault w' of None \<Rightarrow> (v, None) | Some e \<Rightarrow> (0, Some e))
       \<and> ReadOffset w' = (case read_fault w' of None \<Rightarrow> (0, Some EOF) | Some e \<Rightarrow> (0, Some e))
       \<and> read_fault w' = read_fault w"
proof -
  from assms(2) have c: "content w' = Itoa (sint v)" and p: "pos w' = length (Itoa (sint v))"
    and s: "seek_fault w' = None" and r: "read_fault w' = read_fault w"
    using WriteOffset_success by blast+
  from assms(1) c have sc: "scanUint (content w') = Inr v" by (simp add: scanUint_Itoa)
  show ?thesis
  proof (cases "read_fault w'")
    case None
    from None s sc have "ReadOffset (snd (Seek w' 0 0)) = (v, None)" by (rule ReadOffset_rewound)
    moreover from None c p have "ReadOffset w' = (0, Some EOF)" by (simp add: ReadOffset_at_end)
    ultimately show ?thesis using None r by simp
  next
    case (Some e)
    then have "ReadOffset w' = (0, Some e)" by (rule ReadOffset_read_fails)
    moreover from Some have "ReadOffset (snd (Seek w' 0 0)) = (0, Some e)"
      by (simp add: Seek_start [OF s] ReadOffset_read_fails)
    ultimately show ?thesis using Some r by simp
  qed
qed

lemmas eval_store = sample_store_def full_store_def WriteOffset_def Truncate_def Seek_def Write_def
  write_at_def Itoa_def ReadOffset_def scanUint_def ParseUint_def is_space_def is_digit_def
  digit_val_def decimal.simps digit_char_def Let_def

theorem offset_roundtrip_witness:
  "(42 :: 64 word) < 2 ^ 63
   \<and> WriteOffset sample_store 42 = (None, sample_store\<lparr>content := ''42'', pos := 2\<rparr>)
   \<and> read_fault (sample_store\<lparr>content := ''42'', pos := 2\<rparr>) = None
   \<and> ReadOffset (snd (Seek (sample_store\<lparr>content := ''42'', pos := 2\<rparr>) 0 0)) = (42, None)
   \<and> ReadOffset (sample_store\<lparr>content := ''42'', pos := 2\<rparr>) = (0, Some EOF)"
proof -
  have a: "(42 :: 64 word) < 2 ^ 63" by simp
  have b: "WriteOffset sample_store 42 = (None, sample_store\<lparr>content := ''42'', pos := 2\<rparr>)"
    by (simp add: eval_store)
  have c: "read_fault (sample_store\<lparr>content := ''42'', pos := 2\<rparr>) = None"
    by (simp add: sample_store_def)
  from a b c offset_roundtrip [OF a b] show ?thesis by simp
qed

text \<open>
  The round trip as claim C3 states it fails: read through the same handle, offset 7 comes
  back as the end-of-input error; and offset \<open>2 ^ 63\<close> is written as a negative number,
  which the scan into a \<open>uint64\<close> rejects even from the start of the storage.
\<close>

theorem offset_roundtrip_counterexample:
  "ReadOffset (snd (WriteOffset sample_store 7)) = (0, Some EOF)
   \<and> ReadOffset (snd (Seek (snd (WriteOffset sample_store (2 ^ 63))) 0 0)) = (0, Some ExpectedInteger)"
  by (simp add: eval_store)

lemma Itoa_not_Nil: "Itoa i \<noteq> []"
  by (simp add: Itoa_def decimal_not_Nil)

text \<open>
  Claim C6, as the code has it. \<open>WriteOffset\<close> truncates, seeks and writes in three
  separate calls; nothing makes the three one atomic step. For every offset \<open>v < 2 ^ 63\<close>
  and every storage: when \<open>WriteOffset\<close> returns no error the storage holds exactly the
  decimal representation of \<open>v\<close>; when it returns an error, either \<open>Truncate\<close> failed and
  the storage is as it was, or the truncation was done and the storage holds a proper prefix
  of the new representation (empty when \<open>Seek\<close> failed or nothing was written), the prior
  content being lost.
\<close>

theorem WriteOffset_outcomes:
  assumes "v < 2 ^ 63" and "WriteOffset w v = (err, w')"
  shows "(err = None \<longrightarrow> content w' = decimal (unat v))
       \<and> (err \<noteq> None \<longrightarrow>
            (truncate_fault w \<noteq> None \<and> w' = w)
          \<or> (truncate_fault w = None
              \<and> (\<exists>k < length (decimal (unat v)). content w' = take k (decimal (unat v)))))"
proof (cases "truncate_fault w")
  case (Some e)
  with assms(2) show ?thesis by (auto simp: WriteOffset_truncate_fails)
next
  case None
  have d: "Itoa (sint v) = decimal (unat v)" using assms(1) by (rule Itoa_sint)
  have pos: "0 < length (decimal (unat v))" by (simp add: decimal_not_Nil)
  show ?thesis
  proof (cases "seek_fault w")
    case (Some e)
    with None assms(2) have "err = Some e" and "content w' = []"
      by (auto simp: WriteOffset_seek_fails)
    with None pos show ?thesis by auto
  next
    case sk: None
    have short: "\<exists>j < length (decimal (unat v)). take k (decimal (unat v)) = take j (decimal (unat v))"
      if "\<not> length (decimal (unat v)) \<le> k" for k
      using that by (intro exI [of _ k]) simp
    from assms(2) None show ?thesis
      unfolding WriteOffset_written [OF None sk] d
      by (auto split: option.splits if_splits simp: short)
  qed
qed

theorem WriteOffset_outcomes_witness:
  "(42 :: 64 word) < 2 ^ 63
   \<and> WriteOffset full_store 42 =
       (Some (Failure ''no space left on device''),
        full_store\<lparr>content := ''4'', pos := 1, write_room := Some 0\<rparr>)
   \<and> truncate_fault full_store = None
   \<and> (\<exists>k < length (decimal (unat (42 :: 64 word))). ''4'' = take k (decimal (unat (42 :: 64 word))))"
proof -
  have a: "(42 :: 64 word) < 2 ^ 63" by simp
  have b: "WriteOffset full_store 42 =
       (Some (Failure ''no space left on device''),
        full_store\<lparr>content := ''4'', pos := 1, write_room := Some 0\<rparr>)"
    by (simp add: eval_store)
  have c: "truncate_fault full_store = None" by (simp add: eval_store)
  from a b c WriteOffset_outcomes [OF a b] show ?thesis by simp
qed

text \<open>
  The write is not atomic: on a device with room for one byte, writing offset 42 over the
  stored \<open>12345\<close> returns an error and leaves \<open>4\<close>, which is neither the prior content
  nor the new representation.
\<close>

theorem WriteOffset_not_atomic_counterexample:
  "fst (WriteOffset full_store 42) = Some (Failure ''no space left on device'')
   \<and> content (snd (WriteOffset full_store 42)) = ''4''
   \<and> content (snd (WriteOffset full_store 42)) \<noteq> content full_store
   \<and> content (snd (WriteOffset full_store 42)) \<noteq> Itoa (sint (42 :: 64 word))"
  by (simp add: eval_store)

text \<open>
  Writing the same offset twice: the second write truncates what the first one wrote, so
  for \<open>v < 2 ^ 63\<close> the storage holds the decimal representation of \<open>v\<close> and nothing else,
  whatever it held before, and, where it can be read, reads back as \<open>v\<close> from the start.
\<close>

lemma WriteOffset_twice:
  assumes "v < 2 ^ 63" and "WriteOffset w v = (None, w1)" and "WriteOffset w1 v = (None, w2)"
    and "read_fault w2 = None"
  shows "content w2 = decimal (unat v) \<and> ReadOffset (snd (Seek w2 0 0)) = (v, None)"
proof -
  from assms(3) have c: "content w2 = Itoa (sint v)" and s: "seek_fault w2 = None"
    using WriteOffset_success by blast+
  from assms(1) c have "scanUint (content w2) = Inr v" by (simp add: scanUint_Itoa)
  with assms(4) s have "ReadOffset (snd (Seek w2 0 0)) = (v, None)" by (rule ReadOffset_rewound)
  with c assms(1) show ?thesis by (simp add: Itoa_sint)
qed

text \<open>
  Claim C8 at the offset \<open>2 ^ 64 - 1\<close>: \<open>int(offset)\<close> is \<open>-1\<close>, so after the two writes
  the storage holds \<open>-1\<close>, which is not the decimal representation of the offset, and
  \<open>ReadOffset\<close> from the start of the storage rejects it.
\<close>

theorem offset_rewrite_negative:
  "WriteOffset (snd (WriteOffset sample_store 18446744073709551615)) 18446744073709551615
     = (None, sample_store\<lparr>content := ''-1'', pos := 2\<rparr>)
   \<and> ReadOffset (snd (Seek (sample_store\<lparr>content := ''-1'', pos := 2\<rparr>) 0 0))
     = (0, Some ExpectedInteger)
   \<and> decimal (unat (18446744073709551615 :: 64 word)) = ''18446744073709551615''"
  by (simp add: eval_store)

section \<open>The event loop\<close>

lemma offset_writes_append: "offset_writes (xs @ ys) = offset_writes xs @ offset_writes ys"
  by (induction xs rule: offset_writes.induct) simp_all

lemma launched_append: "launched (xs @ ys) = launched xs @ launched ys"
  by (induction xs rule: launched.induct) simp_all

lemma offset_writes_launches: "offset_writes (map Go_processEvent evs) = []"
  by (induction evs) simp_all

lemma launched_launches: "launched (map Go_processEvent evs) = evs"
  by (induction evs) simp_all

lemma RunEventProcessor_CtxDone: "RunEventProcessor wo (CtxDone ## env) st = Some st"
  by (subst RunEventProcessor.simps) simp

lemma RunEventProcessor_cancelled: "RunEventProcessor wo (sconst CtxDone) st = Some st"
  by (subst RunEventProcessor.simps) simp

lemma RunEventProcessor_Receive:
  "RunEventProcessor wo (Receive r ## env) st = RunEventProcessor wo env (receive_case wo r st)"
  by (subst RunEventProcessor.simps) simp

lemma RunEventProcessor_returns_CtxDone:
  assumes "RunEventProcessor wo env st = Some res"
  shows "\<exists>n. env !! n = CtxDone"
  using assms
proof (induction rule: RunEventProcessor.raw_induct [rotated 1, consumes 1])
  case (1 run wo env st res)
  show ?case
  proof (cases "shd env")
    case CtxDone
    then have "env !! 0 = CtxDone" by simp
    then show ?thesis by blast
  next
    case (Receive r)
    with 1(2) have "run wo (stl env) (receive_case wo r st) = Some res" by simp
    then obtain n where "stl env !! n = CtxDone" using 1(1) by blast
    then have "env !! Suc n = CtxDone" by simp
    then show ?thesis by blast
  qed
qed

lemma RunEventProcessor_CtxDone_returns:
  "env !! n = CtxDone \<Longrightarrow> \<exists>res. RunEventProcessor wo env st = Some res"
proof (induction n arbitrary: env st)
  case 0
  then show ?case by (subst RunEventProcessor.simps) simp
next
  case (Suc n)
  then have "stl env !! n = CtxDone" by simp
  from Suc.IH [OF this] show ?case
    by (subst RunEventProcessor.simps) (simp split: select.splits)
qed

text \<open>
  Claim C2 on a closed channel with a context that is never cancelled: every round of the
  \<open>select\<close> receives \<open>ok = false\<close>, the \<open>break\<close> leaves the \<open>select\<close> only, and the loop
  never returns. By the two lemmas above the loop returns exactly when \<open>ctx.Done()\<close> is
  taken.
\<close>

theorem closed_channel_never_returns:
  "RunEventProcessor wo (sconst (Receive None)) st = None"
proof (cases "RunEventProcessor wo (sconst (Receive None)) st")
  case None
  then show ?thesis .
next
  case (Some res)
  then obtain n where "sconst (Receive None) !! n = CtxDone"
    using RunEventProcessor_returns_CtxDone by blast
  then show ?thesis by simp
qed

text \<open>
  Claim C1, as the code has it. A batch with zero events is logged and skipped whole: no
  event is launched, \<open>writeOffset\<close> is not called, the offset handler is as it was, and the
  loop goes on with the next round.
\<close>

theorem empty_batch_skips_offset_write:
  assumes "Events m = []"
  shows "receive_case wo (Some m) (app, tr) = (app, tr @ [Log Event_message_with_no_events])
       \<and> offset_writes (snd (receive_case wo (Some m) (app, tr))) = offset_writes tr
       \<and> launched (snd (receive_case wo (Some m) (app, tr))) = launched tr
       \<and> RunEventProcessor wo (Receive (Some m) ## env) (app, tr)
           = RunEventProcessor wo env (app, tr @ [Log Event_message_with_no_events])"
  using assms
  by (simp add: RunEventProcessor_Receive receive_case_def offset_writes_append launched_append)

theorem empty_batch_skips_offset_write_witness:
  "Events \<lparr>Offset = 5, Events = []\<rparr> = []
   \<and> receive_case WriteOffset (Some \<lparr>Offset = 5, Events = []\<rparr>) (sample_app, [])
       = (sample_app, [Log Event_message_with_no_events])
   \<and> RunEventProcessor WriteOffset (Receive (Some \<lparr>Offset = 5, Events = []\<rparr>) ## sconst CtxDone)
        (sample_app, [])
       = Some (sample_app, [Log Event_message_with_no_events])"
  using empty_batch_skips_offset_write
    [of "\<lparr>Offset = 5, Events = []\<rparr>" WriteOffset sample_app "[]" "sconst CtxDone"]
  by (simp add: RunEventProcessor_cancelled)

text \<open>
  Claim C1 as stated fails: after an empty batch with offset 5 there is no offset write
  with value 6, and the storage is untouched.
\<close>

theorem empty_batch_offset_counterexample:
  "offset_writes (snd (receive_case WriteOffset (Some \<lparr>Offset = 5, Events = []\<rparr>) (sample_app, [])))
     \<noteq> [5 + 1]
   \<and> OffsetHandler (fst (receive_case WriteOffset (Some \<lparr>Offset = 5, Events = []\<rparr>) (sample_app, [])))
     = sample_store"
  by (simp add: receive_case_def sample_app_def)

text \<open>
  Claim C4. For a batch with at least one event the loop logs the count, launches every
  event in order, then calls \<open>writeOffset\<close> once, with the batch's offset plus one; when
  the call returns an error the error is logged and nothing else happens. In either case
  the loop goes on with the next round.
\<close>

theorem nonempty_batch_one_offset_write:
  assumes "Events m \<noteq> []" and "wo (OffsetHandler app) (Offset m + 1) = (err, h)"
  shows "receive_case wo (Some m) (app, tr) =
           (app\<lparr>OffsetHandler := h\<rparr>,
            tr @ [Log (Processing_events (length (Events m)))] @ map Go_processEvent (Events m)
               @ [Call_writeOffset (Offset m + 1)]
               @ (case err of None \<Rightarrow> [] | Some e \<Rightarrow> [Log (Failed_to_write_offset e)]))
       \<and> offset_writes (snd (receive_case wo (Some m) (app, tr))) = offset_writes tr @ [Offset m + 1]
       \<and> launched (snd (receive_case wo (Some m) (app, tr))) = launched tr @ Events m
       \<and> RunEventProcessor wo (Receive (Some m) ## env) (app, tr)
           = RunEventProcessor wo env (receive_case wo (Some m) (app, tr))"
proof -
  have rc: "receive_case wo (Some m) (app, tr) =
           (app\<lparr>OffsetHandler := h\<rparr>,
            tr @ [Log (Processing_events (length (Events m)))] @ map Go_processEvent (Events m)
               @ [Call_writeOffset (Offset m + 1)]
               @ (case err of None \<Rightarrow> [] | Some e \<Rightarrow> [Log (Failed_to_write_offset e)]))"
    using assms by (simp add: receive_case_def Let_def split: option.splits)
  have ow: "offset_writes (snd (receive_case wo (Some m) (app, tr))) = offset_writes tr @ [Offset m + 1]"
    unfolding rc
    by (simp add: offset_writes_append offset_writes_launches split: option.splits)
  have la: "launched (snd (receive_case wo (Some m) (app, tr))) = launched tr @ Events m"
    unfolding rc
    by (simp add: launched_append launched_launches split: option.splits)
  from rc ow la show ?thesis
    by (simp only: RunEventProcessor_Receive simp_thms)
qed


theorem nonempty_batch_one_offset_write_witness:
  "Events \<lparr>Offset = 41, Events = [event1, event2]\<rparr> \<noteq> []
   \<and> WriteOffset full_store (41 + 1) =
        (Some (Failure ''no space left on device''),
         full_store\<lparr>content := ''4'', pos := 1, write_room := Some 0\<rparr>)
   \<and> RunEventProcessor WriteOffset
        (Receive (Some \<lparr>Offset = 41, Events = [event1, event2]\<rparr>)
           ## Receive (Some \<lparr>Offset = 42, Events = [event2]\<rparr>) ## sconst CtxDone)
        (sample_app\<lparr>OffsetHandler := full_store\<rparr>, [])
     = Some (sample_app\<lparr>OffsetHandler := full_store\<lparr>content := [], pos := 0, write_room := Some 0\<rparr>\<rparr>,
             [Log (Processing_events 2), Go_processEvent event1, Go_processEvent event2,
              Call_writeOffset 42, Log (Failed_to_write_offset (Failure ''no space left on device'')),
              Log (Processing_events 1), Go_processEvent event2,
              Call_writeOffset 43, Log (Failed_to_write_offset (Failure ''no space left on device''))])"
proof -
  have a: "Events \<lparr>Offset = 41, Events = [event1, event2]\<rparr> \<noteq> []" by simp
  have b: "WriteOffset (OffsetHandler (sample_app\<lparr>OffsetHandler := full_store\<rparr>))
             (Offset \<lparr>Offset = 41, Events = [event1, event2]\<rparr> + 1) =
        (Some (Failure ''no space left on device''),
         full_store\<lparr>content := ''4'', pos := 1, write_room := Some 0\<rparr>)"
    by (simp add: eval_store)
  from b have b': "WriteOffset full_store (41 + 1) =
        (Some (Failure ''no space left on device''),
         full_store\<lparr>content := ''4'', pos := 1, write_room := Some 0\<rparr>)"
    by simp
  have c: "WriteOffset (full_store\<lparr>content := ''4'', pos := 1, write_room := Some 0\<rparr>) 43 =
        (Some (Failure ''no space left on device''),
         full_store\<lparr>content := [], pos := 0, write_room := Some 0\<rparr>)"
    by (simp add: eval_store)
  note t = nonempty_batch_one_offset_write
    [where m = "\<lparr>Offset = 41, Events = [event1, event2]\<rparr>" and wo = WriteOffset
       and app = "sample_app\<lparr>OffsetHandler := full_store\<rparr>"
       and err = "Some (Failure ''no space left on device'')"
       and h = "full_store\<lparr>content := ''4'', pos := 1, write_room := Some 0\<rparr>"
       and tr = "[]"
       and env = "Receive (Some \<lparr>Offset = 42, Events = [event2]\<rparr>) ## sconst CtxDone"]
  from a b' c t [OF a b]
  show ?thesis
    by (simp add: RunEventProcessor_cancelled RunEventProcessor_Receive receive_case_def)
qed

section \<open>processEvent and the HTTP handlers\<close>


lemmas eval_app = sample_app_def silent_app_def sample_api_def sample_chain_def event1_def
  event2_def sample_payload_def sample_body_def sample_digest_def respondWithError_def
  respondWithJSON_def





text \<open>
  Claim C7. When the request body does not decode, \<open>SignQuery\<close> responds 400 with the JSON
  object \<open>error = failed to deserialize transaction\<close>, and its only effects are two log
  lines: no signing, no chain-state fetch, no push.
\<close>

theorem SignQuery_invalid_json:
  assumes "Unmarshal_tx (bcAPI app) (fst (Body req)) = Inl err"
  shows "fst (SignQuery app req) =
           Returns \<lparr>code = 400, content_type = ''application/json'',
                    payload = [(''error'', ''failed to deserialize transaction'')]\<rparr>
       \<and> snd (SignQuery app req) = [Log Called_sign_transaction, Log (Failed_to_deserialize err)]
       \<and> filter is_network_call (snd (SignQuery app req)) = []"
  using assms by (simp add: SignQuery_def respondWithError_def respondWithJSON_def)

theorem SignQuery_invalid_json_witness:
  "Unmarshal_tx (bcAPI sample_app) (fst (Body \<lparr>Body = ([], None)\<rparr>))
     = Inl (Failure ''unexpected end of JSON input'')
   \<and> SignQuery sample_app \<lparr>Body = ([], None)\<rparr> =
       (Returns \<lparr>code = 400, content_type = ''application/json'',
                 payload = [(''error'', ''failed to deserialize transaction'')]\<rparr>,
        [Log Called_sign_transaction,
         Log (Failed_to_deserialize (Failure ''unexpected end of JSON input''))])"
proof -
  have a: "Unmarshal_tx (bcAPI sample_app) (fst (Body \<lparr>Body = ([], None)\<rparr>))
     = Inl (Failure ''unexpected end of JSON input'')"
    by (simp add: eval_app)
  from a SignQuery_invalid_json [OF a] show ?thesis
    by (simp add: prod_eq_iff)
qed

text \<open>
  Claim C9, as the code has it. The error of \<open>ioutil.ReadAll\<close> is dropped: the handler
  does exactly what it does on the same bytes read without error. So a failed read is
  answered with the 400 of a failed deserialization when the bytes read do not decode, and
  is not reported at all when they do.
\<close>

theorem SignQuery_ignores_read_error:
  assumes "snd (Body req) = Some e"
  shows "SignQuery app req = SignQuery app (req\<lparr>Body := (fst (Body req), None)\<rparr>)
       \<and> (\<forall>err. Unmarshal_tx (bcAPI app) (fst (Body req)) = Inl err \<longrightarrow>
             fst (SignQuery app req)
               = Returns (respondWithError 400 ''failed to deserialize transaction''))
       \<and> (\<forall>tx. Unmarshal_tx (bcAPI app) (fst (Body req)) = Inr tx \<longrightarrow>
             fst (SignQuery app req)
               \<noteq> Returns (respondWithError 400 ''failed to deserialize transaction''))"
  by (auto simp: SignQuery_def Let_def respondWithError_def respondWithJSON_def
      split: sum.splits option.splits)

theorem SignQuery_ignores_read_error_witness:
  "snd (Body \<lparr>Body = ([], Some (Failure ''unexpected EOF''))\<rparr>) = Some (Failure ''unexpected EOF'')
   \<and> Unmarshal_tx (bcAPI sample_app) [] = Inl (Failure ''unexpected end of JSON input'')
   \<and> SignQuery sample_app \<lparr>Body = ([], Some (Failure ''unexpected EOF''))\<rparr>
       = SignQuery sample_app \<lparr>Body = ([], None)\<rparr>
   \<and> fst (SignQuery sample_app \<lparr>Body = ([], Some (Failure ''unexpected EOF''))\<rparr>)
       = Returns (respondWithError 400 ''failed to deserialize transaction'')"
proof -
  have a: "snd (Body \<lparr>Body = ([], Some (Failure ''unexpected EOF''))\<rparr>) = Some (Failure ''unexpected EOF'')"
    by simp
  have b: "Unmarshal_tx (bcAPI sample_app) [] = Inl (Failure ''unexpected end of JSON input'')"
    by (simp add: eval_app)
  from a b SignQuery_ignores_read_error [OF a, of sample_app] show ?thesis
    by auto
qed

text \<open>
  Claim C9 as stated fails. The sample body is a complete transaction document; when the
  read of the request fails after it (the client announced a longer body and closed the
  connection), the document decodes, the handler signs and pushes it, and the answer is
  200 with a transaction id, not the 400 of a failed deserialization.
\<close>

theorem SignQuery_read_error_counterexample:
  "snd (Body \<lparr>Body = (sample_body, Some (Failure ''unexpected EOF''))\<rparr>) \<noteq> None
   \<and> Unmarshal_tx (bcAPI sample_app) sample_body = Inr ''tx''
   \<and> fst (SignQuery sample_app \<lparr>Body = (sample_body, Some (Failure ''unexpected EOF''))\<rparr>)
       = Returns \<lparr>code = 200, content_type = ''application/json'', payload = [(''txid'', ''id:Dtx'')]\<rparr>
   \<and> fst (SignQuery sample_app \<lparr>Body = (sample_body, Some (Failure ''unexpected EOF''))\<rparr>)
       \<noteq> Returns (respondWithError 400 ''failed to deserialize transaction'')"
  by (simp add: SignQuery_def Let_def eval_app)

text \<open>
  Claim C10. Once the body has decoded and the transaction is signed, the push is made
  with the pointer \<open>Pack\<close> returned, and the response is the 200 with the transaction id or
  the 400 of a failed submission, according to the push alone (and there is no response
  where the push returns neither an error nor a result): the error of \<open>Pack\<close> is read
  nowhere.
\<close>

theorem SignQuery_ignores_pack_error:
  assumes "Unmarshal_tx (bcAPI app) (fst (Body req)) = Inr tx"
    and "Sign (bcAPI app) tx (ChainID (BlockChain app)) (Deposit (EosPubKeys (BlockChain app)))
           = Inr signedTx"
  shows "filter is_network_call (snd (SignQuery app req))
           = [Call_Sign tx, Call_PushTransaction (fst (Pack (bcAPI app) signedTx))]
       \<and> fst (SignQuery app req) =
           (case PushTransaction (bcAPI app) (fst (Pack (bcAPI app) signedTx)) of
              Inl sendError \<Rightarrow>
                Returns (respondWithError 400
                  (''failed to send transaction to the blockchain, reason: '' @ Error sendError))
            | Inr None \<Rightarrow> Panics
            | Inr (Some TransactionID) \<Rightarrow> Returns (respondWithJSON 200 [(''txid'', TransactionID)]))"
  using assms by (simp add: SignQuery_def Let_def split: sum.splits option.splits)

theorem SignQuery_ignores_pack_error_witness:
  "Unmarshal_tx (bcAPI (sample_app\<lparr>bcAPI := sample_api\<lparr>Pack := \<lambda>stx. (None, Some (Failure ''pack failed''))\<rparr>\<rparr>))
      (fst (Body \<lparr>Body = (sample_body, None)\<rparr>)) = Inr ''tx''
   \<and> fst (SignQuery (sample_app\<lparr>bcAPI := sample_api\<lparr>Pack := \<lambda>stx. (None, Some (Failure ''pack failed''))\<rparr>\<rparr>)
          \<lparr>Body = (sample_body, None)\<rparr>)
     = Returns \<lparr>code = 400, content_type = ''application/json'',
        payload = [(''error'', ''failed to send transaction to the blockchain, reason: empty transaction'')]\<rparr>
   \<and> filter is_network_call
        (snd (SignQuery (sample_app\<lparr>bcAPI := sample_api\<lparr>Pack := \<lambda>stx. (None, Some (Failure ''pack failed''))\<rparr>\<rparr>)
          \<lparr>Body = (sample_body, None)\<rparr>))
     = [Call_Sign ''tx'', Call_PushTransaction None]"
proof -
  let ?app = "sample_app\<lparr>bcAPI := sample_api\<lparr>Pack := \<lambda>stx. (None, Some (Failure ''pack failed''))\<rparr>\<rparr>"
  let ?req = "\<lparr>Body = (sample_body, None)\<rparr>"
  have a: "Unmarshal_tx (bcAPI ?app) (fst (Body ?req)) = Inr ''tx''"
    by (simp add: eval_app)
  have b: "Sign (bcAPI ?app) ''tx'' (ChainID (BlockChain ?app)) (Deposit (EosPubKeys (BlockChain ?app)))
             = Inr ''Dtx''"
    by (simp add: eval_app)
  have c: "PushTransaction (bcAPI ?app) (fst (Pack (bcAPI ?app) ''Dtx''))
             = Inl (Failure ''empty transaction'')"
    by (simp add: eval_app)
  from a SignQuery_ignores_pack_error [OF a b] show ?thesis
    unfolding c by (simp add: respondWithError_def respondWithJSON_def)
qed

end
